theory Spec2Isabelle
  imports Complex_Main "HOL-Library.Word"
begin

unbundle bit_operations_syntax

section \<open>Machine words, memory blocks and failures\<close>

text \<open>
  The container stores its items in \<open>uint32_t\<close> cells; \<open>uint64_t\<close> appears in the
  intermediate products \<open>(uint64_t)offset * (uint64_t)bitsPerItem\<close> and in the constant
  \<open>1ULL\<close>. A product of two 32-bit values is below \<open>2 ^ 64\<close>, so it is written on
  \<open>nat\<close> as \<open>unat offset * unat bitsPerItem\<close>. Cursor variables that hold bit counts
  (\<open>startBit\<close>, \<open>bitsAvailable\<close>, the compile-time constant \<open>B\<close>) are naturals; the
  arithmetic on them cannot wrap when \<open>B \<le> 32\<close>, the range \<open>PackedArray_create\<close> asserts.
  Where the source subtracts or adds \<open>uint32_t\<close> quantities that could wrap, the model uses
  32-bit word arithmetic.

  A C array (the buffer of the container, the caller's \<open>in\<close> and \<open>out\<close> blocks) is a
  list of words and a pointer into it is an index. Dereferencing outside the block is
  undefined behaviour in C; the model returns \<open>OutOfBounds\<close>. The source's assertions are
  compiled in or out by \<open>NDEBUG\<close> (the self test runs with assertions, the benchmark must be
  compiled with \<open>-DNDEBUG\<close>), so every function that asserts takes the flag \<open>ndebug\<close>;
  a failed assertion is \<open>AssertionFailed\<close>.
\<close>

type_synonym u32 = "32 word"
type_synonym u64 = "64 word"

datatype error = OutOfBounds | AssertionFailed

definition bindE :: "error + 'a \<Rightarrow> ('a \<Rightarrow> error + 'b) \<Rightarrow> error + 'b" where
  "bindE m f = (case m of Inl e \<Rightarrow> Inl e | Inr x \<Rightarrow> f x)"

definition PACKEDARRAY_ASSERT :: "bool \<Rightarrow> bool \<Rightarrow> error + unit" where
  "PACKEDARRAY_ASSERT ndebug expression =
     (if ndebug \<or> expression then Inr () else Inl AssertionFailed)"

definition load :: "u32 list \<Rightarrow> nat \<Rightarrow> error + u32" where
  "load m i = (if i < length m then Inr (m ! i) else Inl OutOfBounds)"

definition store :: "u32 list \<Rightarrow> nat \<Rightarrow> u32 \<Rightarrow> error + u32 list" where
  "store m i v = (if i < length m then Inr (m[i := v]) else Inl OutOfBounds)"

section \<open>The container\<close>

text \<open>
  \<open>struct _PackedArray\<close> of PackedArray.h. The two padding words are never read or
  written by the functions below and are left out.
\<close>

record PackedArray =
  bitsPerItem :: u32
  count :: u32
  buffer :: "u32 list"

text \<open>\<open>mask = (uint32_t)(1ULL << bitsPerItem) - 1\<close>, as in pack, unpack, set and get.\<close>

definition item_mask :: "nat \<Rightarrow> u32" where
  "item_mask B = ucast (push_bit B (1 :: u64)) - 1"

text \<open>\<open>PACKEDARRAY_IMPL_MASK\<close>: \<open>(uint32_t)((1ULL << PACKEDARRAY_IMPL_BITS_PER_ITEM) - 1)\<close>.\<close>

definition IMPL_MASK :: "nat \<Rightarrow> u32" where
  "IMPL_MASK B = ucast (push_bit B (1 :: u64) - 1)"

text \<open>\<open>((uint64_t)bitsPerItem * (uint64_t)count + 31) / 32\<close>, the number of buffer cells.\<close>

definition buffer_cells :: "u32 \<Rightarrow> u32 \<Rightarrow> u64" where
  "buffer_cells b c = (ucast b * ucast c + 31) div 32"

text \<open>
  \<open>PackedArray_create\<close>. The allocator is a parameter: \<open>None\<close> when \<open>PACKEDARRAY_MALLOC\<close>
  returns \<open>NULL\<close>, otherwise the uninitialised content of the block, cell by cell. The only
  store into the buffer is the one at index \<open>buffer_cells - 1\<close>, computed in \<open>uint64_t\<close>.
\<close>

definition create_store_index :: "u32 \<Rightarrow> u32 \<Rightarrow> u64" where
  "create_store_index b c = buffer_cells b c - 1"

definition PackedArray_create ::
  "bool \<Rightarrow> (nat \<Rightarrow> u32) option \<Rightarrow> u32 \<Rightarrow> u32 \<Rightarrow> error + PackedArray option" where
  "PackedArray_create ndebug malloc b c =
     bindE (PACKEDARRAY_ASSERT ndebug (b > 0)) (\<lambda>_.
     bindE (PACKEDARRAY_ASSERT ndebug (b \<le> 32)) (\<lambda>_.
       case malloc of
         None \<Rightarrow> Inr None
       | Some garbage \<Rightarrow>
           bindE (store (map garbage [0 ..< unat (buffer_cells b c)])
                        (unat (create_store_index b c)) 0) (\<lambda>buf.
           Inr (Some \<lparr>bitsPerItem = b, count = c, buffer = buf\<rparr>))))"

definition PackedArray_bufferSize :: "PackedArray \<Rightarrow> u32" where
  "PackedArray_bufferSize a = ucast (buffer_cells (bitsPerItem a) (count a))"

section \<open>Single item access\<close>

definition PackedArray_set :: "bool \<Rightarrow> PackedArray \<Rightarrow> u32 \<Rightarrow> u32 \<Rightarrow> error + PackedArray" where
  "PackedArray_set ndebug a offset v =
     (let B = unat (bitsPerItem a);
          out = (unat offset * B) div 32;
          startBit = (unat offset * B) mod 32;
          bitsAvailable = 32 - startBit;
          msk = item_mask B
      in bindE (PACKEDARRAY_ASSERT ndebug (0 = (NOT msk AND v))) (\<lambda>_.
         if B \<le> bitsAvailable then
           bindE (load (buffer a) out) (\<lambda>w0.
           bindE (store (buffer a) out
                    ((w0 AND NOT (push_bit startBit msk)) OR push_bit startBit v)) (\<lambda>b1.
           Inr (a\<lparr>buffer := b1\<rparr>)))
         else
           let low = push_bit startBit v;
               high = drop_bit bitsAvailable v
           in bindE (load (buffer a) out) (\<lambda>w0.
              bindE (store (buffer a) out ((w0 AND NOT (push_bit startBit msk)) OR low)) (\<lambda>b1.
              bindE (load b1 (out + 1)) (\<lambda>w1.
              bindE (store b1 (out + 1)
                       ((w1 AND NOT (drop_bit (32 - startBit) msk)) OR high)) (\<lambda>b2.
              Inr (a\<lparr>buffer := b2\<rparr>)))))))"

definition PackedArray_get :: "PackedArray \<Rightarrow> u32 \<Rightarrow> error + u32" where
  "PackedArray_get a offset =
     (let B = unat (bitsPerItem a);
          inp = (unat offset * B) div 32;
          startBit = (unat offset * B) mod 32;
          bitsAvailable = 32 - startBit;
          msk = item_mask B
      in if B \<le> bitsAvailable then
           bindE (load (buffer a) inp) (\<lambda>w0. Inr (drop_bit startBit w0 AND msk))
         else
           bindE (load (buffer a) inp) (\<lambda>w0.
           bindE (load (buffer a) (inp + 1)) (\<lambda>w1.
           let low = drop_bit startBit w0;
               high = push_bit (32 - startBit) w1
           in Inr (low XOR ((low XOR high)
                     AND push_bit bitsAvailable (drop_bit bitsAvailable msk))))))"

section \<open>The generic engine\<close>

text \<open>
  \<open>PackedArray_pack\<close> and \<open>PackedArray_unpack\<close> of the plain implementation, whose bodies
  reappear in the self test of the specialised implementation as
  \<open>PackedArray_pack_reference\<close> and \<open>PackedArray_unpack_reference\<close> behind the extra
  \<open>assert(count != 0)\<close>. The local variables of the loop are the fields of a cursor.
\<close>

record pack_cursor =
  pc_buf :: "u32 list"
  pc_out :: nat
  pc_in :: nat
  pc_startBit :: nat
  pc_bitsAvailable :: nat
  pc_packed :: u32

definition pack_step :: "bool \<Rightarrow> nat \<Rightarrow> u32 \<Rightarrow> u32 list \<Rightarrow> pack_cursor \<Rightarrow> error + pack_cursor" where
  "pack_step ndebug B msk vals s =
     bindE (load vals (pc_in s)) (\<lambda>v.
     bindE (PACKEDARRAY_ASSERT ndebug (0 = (NOT msk AND v))) (\<lambda>_.
       if B \<le> pc_bitsAvailable s then
         Inr (s\<lparr>pc_in := pc_in s + 1,
                pc_packed := (pc_packed s AND NOT (push_bit (pc_startBit s) msk))
                               OR push_bit (pc_startBit s) v,
                pc_startBit := pc_startBit s + B,
                pc_bitsAvailable := pc_bitsAvailable s - B\<rparr>)
       else if pc_bitsAvailable s = 0 then
         bindE (store (pc_buf s) (pc_out s) (pc_packed s)) (\<lambda>b1.
         bindE (load b1 (pc_out s + 1)) (\<lambda>w.
         Inr (s\<lparr>pc_in := pc_in s + 1,
                pc_buf := b1,
                pc_out := pc_out s + 1,
                pc_packed := (w AND NOT msk) OR v,
                pc_startBit := 0 + B,
                pc_bitsAvailable := 32 - B\<rparr>)))
       else
         let low = push_bit (pc_startBit s) v;
             high = drop_bit (pc_bitsAvailable s) v
         in bindE (store (pc_buf s) (pc_out s)
                     ((pc_packed s AND NOT (push_bit (pc_startBit s) msk)) OR low)) (\<lambda>b1.
            bindE (load b1 (pc_out s + 1)) (\<lambda>w.
            Inr (s\<lparr>pc_in := pc_in s + 1,
                   pc_buf := b1,
                   pc_out := pc_out s + 1,
                   pc_packed := (w AND NOT (drop_bit (32 - pc_startBit s) msk)) OR high,
                   pc_startBit := (pc_startBit s + B) mod 32,
                   pc_bitsAvailable := 32 - (pc_startBit s + B) mod 32\<rparr>)))))"

text \<open>\<open>while (count--)\<close>: one step per remaining item.\<close>

fun pack_loop :: "bool \<Rightarrow> nat \<Rightarrow> u32 \<Rightarrow> u32 list \<Rightarrow> nat \<Rightarrow> pack_cursor \<Rightarrow> error + pack_cursor" where
  "pack_loop ndebug B msk vals 0 s = Inr s"
| "pack_loop ndebug B msk vals (Suc n) s =
     (case pack_step ndebug B msk vals s of
        Inl e \<Rightarrow> Inl e
      | Inr s' \<Rightarrow> pack_loop ndebug B msk vals n s')"

definition PackedArray_pack_generic ::
  "bool \<Rightarrow> PackedArray \<Rightarrow> u32 \<Rightarrow> u32 list \<Rightarrow> u32 \<Rightarrow> error + PackedArray" where
  "PackedArray_pack_generic ndebug a offset vals cnt =
     (let B = unat (bitsPerItem a);
          out = (unat offset * B) div 32;
          startBit = (unat offset * B) mod 32;
          bitsAvailable = 32 - startBit;
          msk = item_mask B
      in bindE (load (buffer a) out) (\<lambda>packed.
         bindE (pack_loop ndebug B msk vals (unat cnt)
                  \<lparr>pc_buf = buffer a, pc_out = out, pc_in = 0, pc_startBit = startBit,
                   pc_bitsAvailable = bitsAvailable, pc_packed = packed\<rparr>) (\<lambda>s.
         bindE (store (pc_buf s) (pc_out s) (pc_packed s)) (\<lambda>b.
         Inr (a\<lparr>buffer := b\<rparr>)))))"

definition PackedArray_pack_reference ::
  "bool \<Rightarrow> PackedArray \<Rightarrow> u32 \<Rightarrow> u32 list \<Rightarrow> u32 \<Rightarrow> error + PackedArray" where
  "PackedArray_pack_reference ndebug a offset vals cnt =
     bindE (PACKEDARRAY_ASSERT ndebug (cnt \<noteq> 0)) (\<lambda>_.
     PackedArray_pack_generic ndebug a offset vals cnt)"

record unpack_cursor =
  uc_in :: nat
  uc_out :: nat
  uc_outv :: "u32 list"
  uc_startBit :: nat
  uc_bitsAvailable :: nat
  uc_packed :: u32

definition unpack_step :: "nat \<Rightarrow> u32 \<Rightarrow> u32 list \<Rightarrow> unpack_cursor \<Rightarrow> error + unpack_cursor" where
  "unpack_step B msk buf s =
     (if B \<le> uc_bitsAvailable s then
        bindE (store (uc_outv s) (uc_out s)
                 (drop_bit (uc_startBit s) (uc_packed s) AND msk)) (\<lambda>ov.
        Inr (s\<lparr>uc_outv := ov,
               uc_out := uc_out s + 1,
               uc_startBit := uc_startBit s + B,
               uc_bitsAvailable := uc_bitsAvailable s - B\<rparr>))
      else if uc_bitsAvailable s = 0 then
        bindE (load buf (uc_in s + 1)) (\<lambda>w.
        bindE (store (uc_outv s) (uc_out s) (w AND msk)) (\<lambda>ov.
        Inr (s\<lparr>uc_in := uc_in s + 1,
               uc_packed := w,
               uc_outv := ov,
               uc_out := uc_out s + 1,
               uc_startBit := B,
               uc_bitsAvailable := 32 - B\<rparr>)))
      else
        let low = drop_bit (uc_startBit s) (uc_packed s)
        in bindE (load buf (uc_in s + 1)) (\<lambda>w.
           let high = push_bit (32 - uc_startBit s) w;
               v = low XOR ((low XOR high)
                     AND push_bit (uc_bitsAvailable s) (drop_bit (uc_bitsAvailable s) msk))
           in bindE (store (uc_outv s) (uc_out s) v) (\<lambda>ov.
              Inr (s\<lparr>uc_in := uc_in s + 1,
                     uc_packed := w,
                     uc_outv := ov,
                     uc_out := uc_out s + 1,
                     uc_startBit := (uc_startBit s + B) mod 32,
                     uc_bitsAvailable := 32 - (uc_startBit s + B) mod 32\<rparr>))))"

fun unpack_loop :: "nat \<Rightarrow> u32 \<Rightarrow> u32 list \<Rightarrow> nat \<Rightarrow> unpack_cursor \<Rightarrow> error + unpack_cursor" where
  "unpack_loop B msk buf 0 s = Inr s"
| "unpack_loop B msk buf (Suc n) s =
     (case unpack_step B msk buf s of
        Inl e \<Rightarrow> Inl e
      | Inr s' \<Rightarrow> unpack_loop B msk buf n s')"

definition PackedArray_unpack_generic ::
  "PackedArray \<Rightarrow> u32 \<Rightarrow> u32 list \<Rightarrow> u32 \<Rightarrow> error + u32 list" where
  "PackedArray_unpack_generic a offset outv cnt =
     (let B = unat (bitsPerItem a);
          inp = (unat offset * B) div 32;
          startBit = (unat offset * B) mod 32;
          bitsAvailable = 32 - startBit;
          msk = item_mask B
      in bindE (load (buffer a) inp) (\<lambda>packed.
         bindE (unpack_loop B msk (buffer a) (unat cnt)
                  \<lparr>uc_in = inp, uc_out = 0, uc_outv = outv, uc_startBit = startBit,
                   uc_bitsAvailable = bitsAvailable, uc_packed = packed\<rparr>) (\<lambda>s.
         Inr (uc_outv s))))"

definition PackedArray_unpack_reference ::
  "bool \<Rightarrow> PackedArray \<Rightarrow> u32 \<Rightarrow> u32 list \<Rightarrow> u32 \<Rightarrow> error + u32 list" where
  "PackedArray_unpack_reference ndebug a offset outv cnt =
     bindE (PACKEDARRAY_ASSERT ndebug (cnt \<noteq> 0)) (\<lambda>_.
     PackedArray_unpack_generic a offset outv cnt)"

section \<open>The specialised engine\<close>

text \<open>
  The file includes itself once per width \<open>B\<close> and, inside each pack and unpack function,
  once per \<open>case I\<close> of a \<open>switch\<close> with 32 labels. The width is the parameter \<open>B\<close> of the
  model, the label the parameter \<open>I\<close>.
\<close>

definition IMPL_START_BIT :: "nat \<Rightarrow> nat \<Rightarrow> nat" where
  "IMPL_START_BIT B I = (I * B) mod 32"

definition IMPL_BITS_AVAILABLE :: "nat \<Rightarrow> nat \<Rightarrow> nat" where
  "IMPL_BITS_AVAILABLE B I = 32 - ((I * B) mod 32)"

record pack_st =
  ps_buf :: "u32 list"
  ps_out :: nat
  ps_in :: nat
  ps_packed :: u32

text \<open>The statements under one \<open>case I:\<close> of \<open>PACKEDARRAY_IMPL_PACK_CASES\<close>.\<close>

definition pack_case :: "nat \<Rightarrow> nat \<Rightarrow> u32 list \<Rightarrow> pack_st \<Rightarrow> error + pack_st" where
  "pack_case B I vals s =
     (if B \<le> IMPL_BITS_AVAILABLE B I then
        bindE (load vals (ps_in s)) (\<lambda>v.
        let s1 = s\<lparr>ps_in := ps_in s + 1,
                   ps_packed := ps_packed s OR push_bit (IMPL_START_BIT B I) v\<rparr>
        in if B = IMPL_BITS_AVAILABLE B I then
             bindE (store (ps_buf s1) (ps_out s1) (ps_packed s1)) (\<lambda>b.
             Inr (s1\<lparr>ps_buf := b, ps_out := ps_out s1 + 1, ps_packed := 0\<rparr>))
           else Inr s1)
      else
        bindE (load vals (ps_in s)) (\<lambda>v.
        bindE (store (ps_buf s) (ps_out s)
                 (ps_packed s OR push_bit (IMPL_START_BIT B I) v)) (\<lambda>b.
        Inr (s\<lparr>ps_buf := b,
               ps_out := ps_out s + 1,
               ps_packed := drop_bit (IMPL_BITS_AVAILABLE B I) v,
               ps_in := ps_in s + 1\<rparr>))))"

text \<open>
  Control enters at \<open>case I\<close> and falls through the following labels. \<open>endp\<close> is
  \<open>Some end\<close> where \<open>PACKEDARRAY_IMPL_PACK_CASE_BREAK\<close> is \<open>if (in == end) break;\<close>
  and \<open>None\<close> where the macro is empty.
\<close>

function pack_cases :: "nat \<Rightarrow> nat option \<Rightarrow> u32 list \<Rightarrow> nat \<Rightarrow> pack_st \<Rightarrow> error + pack_st" where
  "pack_cases B endp vals I s =
     (case pack_case B I vals s of
        Inl e \<Rightarrow> Inl e
      | Inr s' \<Rightarrow>
          if endp = Some (ps_in s') then Inr s'
          else if I < 31 then pack_cases B endp vals (Suc I) s'
          else Inr s')"
  by pat_completeness auto
termination
  by (relation "measure (\<lambda>(B, endp, vals, I, s). 31 - I)") auto

text \<open>
  \<open>switch (offset) { do { ... } while (--n > 0); }\<close>: the first pass starts at the label
  \<open>offset\<close>, every later pass at \<open>case 0\<close>.
\<close>

function pack_bulk :: "nat \<Rightarrow> u32 list \<Rightarrow> int \<Rightarrow> nat \<Rightarrow> pack_st \<Rightarrow> error + pack_st" where
  "pack_bulk B vals n I s =
     (case pack_cases B None vals I s of
        Inl e \<Rightarrow> Inl e
      | Inr s' \<Rightarrow> if n - 1 > 0 then pack_bulk B vals (n - 1) 0 s' else Inr s')"
  by pat_completeness auto
termination
  by (relation "measure (\<lambda>(B, vals, n, I, s). nat n)") auto

text \<open>
  The part of \<open>__PackedArray_pack_B\<close> after the bulk block: the second \<open>switch\<close>, the
  assertion and the merge of the last cell. \<open>(count * B + startBit) % 32\<close> is computed in
  \<open>uint32_t\<close>, the shift amount of the merge in \<open>uint64_t\<close>.
\<close>

definition pack_tail ::
  "bool \<Rightarrow> nat \<Rightarrow> u32 list \<Rightarrow> u32 \<Rightarrow> u32 \<Rightarrow> nat \<Rightarrow> pack_st \<Rightarrow> error + u32 list" where
  "pack_tail ndebug B vals cnt offset startBit s =
     (let endp = ps_in s + unat cnt
      in bindE (pack_cases B (Some endp) vals (unat offset) s) (\<lambda>s1.
         bindE (PACKEDARRAY_ASSERT ndebug (ps_in s1 = endp)) (\<lambda>_.
         if (cnt * word_of_nat B + word_of_nat startBit) mod 32 \<noteq> (0 :: u32) then
           bindE (load (ps_buf s1) (ps_out s1)) (\<lambda>w.
           store (ps_buf s1) (ps_out s1)
             (ps_packed s1 OR (w AND NOT (ucast (push_bit
                 ((unat cnt * B + startBit - 1) mod 32 + 1) (1 :: u64)) - 1))))
         else Inr (ps_buf s1))))"

text \<open>\<open>__PackedArray_pack_B\<close>; \<open>out0\<close> is the buffer of the container.\<close>

definition PackedArray_pack_B ::
  "bool \<Rightarrow> nat \<Rightarrow> u32 list \<Rightarrow> u32 \<Rightarrow> u32 list \<Rightarrow> u32 \<Rightarrow> error + u32 list" where
  "PackedArray_pack_B ndebug B out0 offset vals cnt =
     (let out = (unat offset * B) div 32;
          startBit = (unat offset * B) mod 32
      in bindE (load out0 out) (\<lambda>w.
         let packed = w AND ucast (push_bit startBit (1 :: u64) - 1);
             offset1 = offset mod 32;
             s0 = \<lparr>ps_buf = out0, ps_out = out, ps_in = 0, ps_packed = packed\<rparr>
         in if cnt \<ge> 32 - offset1 then
              let n = (cnt + offset1) div 32;
                  cnt1 = cnt - (32 * n - offset1)
              in bindE (pack_bulk B vals (sint n) (unat offset1) s0) (\<lambda>s.
                 if cnt1 = 0 then Inr (ps_buf s)
                 else pack_tail ndebug B vals cnt1 0 0 s)
            else pack_tail ndebug B vals cnt offset1 startBit s0))"

text \<open>\<open>PackedArray_pack\<close>: the \<open>switch\<close> on \<open>a->bitsPerItem\<close> has the labels 1 to 32 only.\<close>

definition PackedArray_pack ::
  "bool \<Rightarrow> PackedArray \<Rightarrow> u32 \<Rightarrow> u32 list \<Rightarrow> u32 \<Rightarrow> error + PackedArray" where
  "PackedArray_pack ndebug a offset vals cnt =
     (let B = unat (bitsPerItem a)
      in if 1 \<le> B \<and> B \<le> 32 then
           bindE (PackedArray_pack_B ndebug B (buffer a) offset vals cnt) (\<lambda>b.
           Inr (a\<lparr>buffer := b\<rparr>))
         else Inr a)"

record unpack_st =
  us_in :: nat
  us_packed :: u32
  us_out :: nat
  us_outv :: "u32 list"

text \<open>
  The statements under one \<open>case I:\<close> of \<open>PACKEDARRAY_IMPL_UNPACK_CASES\<close>. The break
  macro sits in the middle of the case, so the result says whether the break was taken.
\<close>

definition unpack_case ::
  "nat \<Rightarrow> nat option \<Rightarrow> u32 list \<Rightarrow> nat \<Rightarrow> unpack_st \<Rightarrow> error + (bool \<times> unpack_st)" where
  "unpack_case B endp inb I s =
     (if B \<le> IMPL_BITS_AVAILABLE B I then
        bindE (store (us_outv s) (us_out s)
                 (drop_bit (IMPL_START_BIT B I) (us_packed s) AND IMPL_MASK B)) (\<lambda>ov.
        let s1 = s\<lparr>us_outv := ov, us_out := us_out s + 1\<rparr>
        in if endp = Some (us_out s1) then Inr (True, s1)
           else if I < 31 \<and> B = IMPL_BITS_AVAILABLE B I then
             bindE (load inb (us_in s1 + 1)) (\<lambda>w.
             Inr (False, s1\<lparr>us_in := us_in s1 + 1, us_packed := w\<rparr>))
           else Inr (False, s1))
      else
        let low = drop_bit (IMPL_START_BIT B I) (us_packed s)
        in bindE (load inb (us_in s + 1)) (\<lambda>w.
           let high = push_bit (IMPL_BITS_AVAILABLE B I) w
           in bindE (store (us_outv s) (us_out s) ((low OR high) AND IMPL_MASK B)) (\<lambda>ov.
              let s1 = s\<lparr>us_in := us_in s + 1, us_packed := w,
                         us_outv := ov, us_out := us_out s + 1\<rparr>
              in Inr (endp = Some (us_out s1), s1))))"

function unpack_cases ::
  "nat \<Rightarrow> nat option \<Rightarrow> u32 list \<Rightarrow> nat \<Rightarrow> unpack_st \<Rightarrow> error + unpack_st" where
  "unpack_cases B endp inb I s =
     (case unpack_case B endp inb I s of
        Inl e \<Rightarrow> Inl e
      | Inr (brk, s') \<Rightarrow>
          if brk then Inr s'
          else if I < 31 then unpack_cases B endp inb (Suc I) s'
          else Inr s')"
  by pat_completeness auto
termination
  by (relation "measure (\<lambda>(B, endp, inb, I, s). 31 - I)") auto

text \<open>
  \<open>switch (offset) { do { packed = *++in; ... } while (--n > 0); }\<close>: the first pass
  jumps over the load at the head of the body, every later pass executes it.
\<close>

function unpack_bulk :: "nat \<Rightarrow> u32 list \<Rightarrow> int \<Rightarrow> nat \<Rightarrow> unpack_st \<Rightarrow> error + unpack_st" where
  "unpack_bulk B inb n I s =
     (case unpack_cases B None inb I s of
        Inl e \<Rightarrow> Inl e
      | Inr s' \<Rightarrow>
          if n - 1 > 0 then
            (case load inb (us_in s' + 1) of
               Inl e \<Rightarrow> Inl e
             | Inr w \<Rightarrow> unpack_bulk B inb (n - 1) 0 (s'\<lparr>us_in := us_in s' + 1, us_packed := w\<rparr>))
          else Inr s')"
  by pat_completeness auto
termination
  by (relation "measure (\<lambda>(B, inb, n, I, s). nat n)") auto

definition unpack_tail ::
  "bool \<Rightarrow> nat \<Rightarrow> u32 list \<Rightarrow> u32 \<Rightarrow> u32 \<Rightarrow> unpack_st \<Rightarrow> error + u32 list" where
  "unpack_tail ndebug B inb cnt offset s =
     (let endp = us_out s + unat cnt
      in bindE (unpack_cases B (Some endp) inb (unat offset) s) (\<lambda>s1.
         bindE (PACKEDARRAY_ASSERT ndebug (us_out s1 = endp)) (\<lambda>_.
         Inr (us_outv s1))))"

text \<open>\<open>__PackedArray_unpack_B\<close>; \<open>inb\<close> is the buffer of the container.\<close>

definition PackedArray_unpack_B ::
  "bool \<Rightarrow> nat \<Rightarrow> u32 list \<Rightarrow> u32 \<Rightarrow> u32 list \<Rightarrow> u32 \<Rightarrow> error + u32 list" where
  "PackedArray_unpack_B ndebug B inb offset outv cnt =
     (let inp = (unat offset * B) div 32
      in bindE (load inb inp) (\<lambda>packed.
         let offset1 = offset mod 32;
             s0 = \<lparr>us_in = inp, us_packed = packed, us_out = 0, us_outv = outv\<rparr>
         in if cnt \<ge> 32 - offset1 then
              let n = (cnt + offset1) div 32;
                  cnt1 = cnt - (32 * n - offset1)
              in bindE (unpack_bulk B inb (sint n) (unat offset1) s0) (\<lambda>s.
                 if cnt1 = 0 then Inr (us_outv s)
                 else bindE (load inb (us_in s + 1)) (\<lambda>w.
                      unpack_tail ndebug B inb cnt1 0
                        (s\<lparr>us_in := us_in s + 1, us_packed := w\<rparr>)))
            else unpack_tail ndebug B inb cnt offset1 s0))"

definition PackedArray_unpack ::
  "bool \<Rightarrow> PackedArray \<Rightarrow> u32 \<Rightarrow> u32 list \<Rightarrow> u32 \<Rightarrow> error + u32 list" where
  "PackedArray_unpack ndebug a offset outv cnt =
     (let B = unat (bitsPerItem a)
      in if 1 \<le> B \<and> B \<le> 32 then PackedArray_unpack_B ndebug B (buffer a) offset outv cnt
         else Inr outv)"

section \<open>Width inference\<close>

definition multiplyDeBruijnBitPosition :: "u32 list" where
  "multiplyDeBruijnBitPosition =
     [0, 9, 1, 10, 13, 21, 2, 29, 11, 14, 16, 18, 22, 25, 3, 30,
      8, 12, 20, 28, 15, 17, 24, 7, 19, 27, 23, 6, 26, 5, 4, 31]"

definition PackedArray_log2 :: "u32 \<Rightarrow> u32" where
  "PackedArray_log2 v0 =
     (let v1 = v0 OR drop_bit 1 v0;
          v2 = v1 OR drop_bit 2 v1;
          v3 = v2 OR drop_bit 4 v2;
          v4 = v3 OR drop_bit 8 v3;
          v5 = v4 OR drop_bit 16 v4
      in multiplyDeBruijnBitPosition ! unat (drop_bit 27 (v5 * 0x7C4ACDD)))"

text \<open>
  \<open>__PackedArray_highestBitSet\<close>, in the branch that uses no compiler intrinsic. The
  result is an \<open>int\<close>.
\<close>

definition PackedArray_highestBitSet :: "u32 \<Rightarrow> int" where
  "PackedArray_highestBitSet v = (if v \<noteq> 0 then uint (PackedArray_log2 v) else - 1)"

text \<open>\<open>for (i = 0; i < count; ++i) in_max = in[i] > in_max ? in[i] : in_max;\<close>\<close>

function max_loop :: "u32 list \<Rightarrow> nat \<Rightarrow> nat \<Rightarrow> u32 \<Rightarrow> error + u32" where
  "max_loop vals cnt i in_max =
     (if i < cnt then
        (case load vals i of
           Inl e \<Rightarrow> Inl e
         | Inr x \<Rightarrow> max_loop vals cnt (i + 1) (if x > in_max then x else in_max))
      else Inr in_max)"
  by pat_completeness auto
termination
  by (relation "measure (\<lambda>(vals, cnt, i, in_max). cnt - i)") auto

definition PackedArray_computeBitsPerItem :: "u32 list \<Rightarrow> u32 \<Rightarrow> error + u32" where
  "PackedArray_computeBitsPerItem vals cnt =
     bindE (max_loop vals (unat cnt) 0 0) (\<lambda>in_max.
     let bitsPerItem = (word_of_int (PackedArray_highestBitSet in_max + 1) :: u32)
     in Inr (if bitsPerItem = 0 then 1 else bitsPerItem))"

lemma bindE_Inr [simp]: "bindE (Inr x) f = f x"
  by (simp add: bindE_def)

lemma bindE_Inl [simp]: "bindE (Inl e) f = Inl e"
  by (simp add: bindE_def)

lemma assert_True [simp]: "PACKEDARRAY_ASSERT ndebug True = Inr ()"
  by (simp add: PACKEDARRAY_ASSERT_def)

lemma assert_ndebug [simp]: "PACKEDARRAY_ASSERT True c = Inr ()"
  by (simp add: PACKEDARRAY_ASSERT_def)

lemma load_in [simp]: "i < length m \<Longrightarrow> load m i = Inr (m ! i)"
  by (simp add: load_def)

lemma store_in [simp]: "i < length m \<Longrightarrow> store m i v = Inr (m[i := v])"
  by (simp add: store_def)

lemma load_out [simp]: "\<not> i < length m \<Longrightarrow> load m i = Inl OutOfBounds"
  by (simp add: load_def)

lemma store_out [simp]: "\<not> i < length m \<Longrightarrow> store m i v = Inl OutOfBounds"
  by (simp add: store_def)

lemma store_length: "store m i v = Inr m' \<Longrightarrow> length m' = length m"
  by (auto simp add: store_def split: if_splits)

lemma ucast_exp_64_32: "n \<le> 32 \<Longrightarrow> (ucast (2 ^ n :: u64) :: u32) = 2 ^ n"
  by (rule bit_word_eqI) (auto simp add: bit_simps)

lemma item_mask_eq: "B \<le> 32 \<Longrightarrow> item_mask B = mask B"
  by (simp add: item_mask_def ucast_exp_64_32 mask_eq_exp_minus_1)

lemma IMPL_MASK_eq: "B \<le> 32 \<Longrightarrow> IMPL_MASK B = mask B"
  unfolding IMPL_MASK_def
  by (simp flip: mask_eq_exp_minus_1) (rule bit_word_eqI, simp add: bit_simps)

lemma mask_32_u32: "(mask 32 :: u32) = - 1"
  by (rule bit_word_eqI) (simp add: bit_simps)

lemma unat_mask_u32: "B \<le> 32 \<Longrightarrow> unat (mask B :: u32) = 2 ^ B - 1"
proof -
  assume B: "B \<le> 32"
  have "uint (mask B :: u32) = mask B"
    using B by (simp add: uint_mask_eq min_def)
  also have "\<dots> = int (2 ^ B - 1)"
    by (simp add: mask_eq_exp_minus_1 of_nat_diff)
  finally have "int (unat (mask B :: u32)) = int (2 ^ B - 1)"
    by simp
  then show ?thesis
    by (simp only: of_nat_eq_iff)
qed

lemma unat_ucast_32_64 [simp]: "unat (ucast (w :: u32) :: u64) = unat w"
proof -
  have "unat w < 2 ^ 64"
    using unsigned_less [of w, where ?'a = nat] by simp
  then show ?thesis
    by (simp add: unsigned_ucast_eq take_bit_nat_eq_self)
qed

lemma unat_u32_le: "unat (w :: u32) \<le> 4294967295"
  using unsigned_less [of w, where ?'a = nat] by simp

lemma unat_mult_u32_bound: "unat (b :: u32) * unat (c :: u32) \<le> 18446744065119617025"
  using mult_le_mono [OF unat_u32_le [of b] unat_u32_le [of c]] by simp

lemma unat_buffer_cells:
  "unat (buffer_cells b c) = (unat b * unat c + 31) div 32"
proof -
  have lt: "unat b * unat c + 31 < 2 ^ 64"
    using unat_mult_u32_bound [of b c] by simp
  have "unat (ucast b * ucast c + 31 :: u64) = unat b * unat c + 31"
    using lt by (simp add: unat_word_ariths take_bit_nat_eq_self mod_less)
  then show ?thesis
    by (simp add: buffer_cells_def unat_div)
qed

lemma unat_bufferSize:
  assumes "unat (bitsPerItem a) \<le> 32"
  shows "unat (PackedArray_bufferSize a) = (unat (bitsPerItem a) * unat (count a) + 31) div 32"
proof -
  have "unat (bitsPerItem a) * unat (count a) \<le> 32 * 4294967295"
    by (rule mult_le_mono [OF assms unat_u32_le])
  then have "(unat (bitsPerItem a) * unat (count a) + 31) div 32 < 2 ^ 32"
    by simp
  then show ?thesis
    by (simp add: PackedArray_bufferSize_def unsigned_ucast_eq unat_buffer_cells
        take_bit_nat_eq_self)
qed

lemma ceiling_div_32: "nat \<lceil>real n / 32\<rceil> = (n + 31) div 32"
proof -
  define m where "m = (n + 31) div 32"
  have a: "n \<le> 32 * m" and b: "32 * m < n + 32"
    unfolding m_def by presburger+
  have "real n \<le> real (32 * m)" "real (32 * m) < real (n + 32)"
    using a b by (simp_all only: of_nat_le_iff of_nat_less_iff)
  then have "real_of_int (int m) - 1 < real n / 32" "real n / 32 \<le> real_of_int (int m)"
    by simp_all
  then have "\<lceil>real n / 32\<rceil> = int m"
    by (rule ceiling_unique)
  then show ?thesis
    by (simp add: m_def)
qed

section \<open>The item mask\<close>

text \<open>
  Claim C8. For every width \<open>B\<close> from 1 to 32 the mask \<open>(uint32_t)(1ULL << B) - 1\<close> of
  pack, unpack, set and get is the 32-bit word \<open>2 ^ B - 1\<close>, its unsigned value is
  \<open>2 ^ B - 1\<close>, and the macro \<open>PACKEDARRAY_IMPL_MASK\<close> yields the same word. For
  \<open>B = 32\<close> the 64-bit shift does not overflow and the mask is the all-ones word.
\<close>

theorem item_mask_value:
  assumes "1 \<le> B" and "B \<le> 32"
  shows "item_mask B = 2 ^ B - 1 \<and> unat (item_mask B) = 2 ^ B - 1
         \<and> IMPL_MASK B = item_mask B \<and> item_mask 32 = 0xFFFFFFFF"
proof -
  have "item_mask B = 2 ^ B - 1"
    using assms by (simp add: item_mask_eq mask_eq_exp_minus_1)
  moreover have "unat (item_mask B) = 2 ^ B - 1"
    using assms by (simp add: item_mask_eq unat_mask_u32)
  moreover have "IMPL_MASK B = item_mask B"
    using assms by (simp add: item_mask_eq IMPL_MASK_eq)
  moreover have "item_mask 32 = 0xFFFFFFFF"
    by (simp add: item_mask_eq mask_32_u32)
  ultimately show ?thesis
    by blast
qed

theorem item_mask_value_witness:
  "item_mask 32 = 2 ^ 32 - 1 \<and> unat (item_mask 32) = 2 ^ 32 - 1
   \<and> IMPL_MASK 32 = item_mask 32 \<and> item_mask 32 = 0xFFFFFFFF"
  using item_mask_value [of 32] by simp

section \<open>Buffer size\<close>

text \<open>
  Claim C7. For every width from 1 to 32 and every count, \<open>PackedArray_bufferSize\<close> of a
  container with these two fields is \<open>ceil(bitsPerItem * count / 32)\<close>, and a container
  returned by \<open>PackedArray_create\<close> carries the two parameters and a buffer of exactly that
  many cells.
\<close>

theorem bufferSize_ceiling:
  assumes "1 \<le> unat b" and "unat b \<le> 32"
  shows "(bitsPerItem a = b \<and> count a = c \<longrightarrow>
            unat (PackedArray_bufferSize a) = nat \<lceil>real (unat b * unat c) / 32\<rceil>)
         \<and> (PackedArray_create ndebug malloc b c = Inr (Some a) \<longrightarrow>
            bitsPerItem a = b \<and> count a = c
            \<and> length (buffer a) = nat \<lceil>real (unat b * unat c) / 32\<rceil>
            \<and> unat (PackedArray_bufferSize a) = length (buffer a))"
proof (intro conjI impI)
  assume "bitsPerItem a = b \<and> count a = c"
  then show "unat (PackedArray_bufferSize a) = nat \<lceil>real (unat b * unat c) / 32\<rceil>"
    using assms by (simp only: ceiling_div_32) (simp add: unat_bufferSize)
next
  assume cr: "PackedArray_create ndebug malloc b c = Inr (Some a)"
  have b0: "b > 0" "b \<le> 32"
    using assms by (simp_all add: word_less_nat_alt word_le_nat_alt)
  from cr b0 obtain g where g: "malloc = Some g"
    and st: "store (map g [0 ..< unat (buffer_cells b c)]) (unat (create_store_index b c)) 0
             = Inr (buffer a)"
    and f: "bitsPerItem a = b" "count a = c"
    by (auto simp add: PackedArray_create_def bindE_def split: option.splits sum.splits)
  from store_length [OF st] have len: "length (buffer a) = unat (buffer_cells b c)"
    by simp
  show "bitsPerItem a = b" "count a = c"
    by (fact f)+
  show "length (buffer a) = nat \<lceil>real (unat b * unat c) / 32\<rceil>"
    by (simp only: ceiling_div_32) (simp add: len unat_buffer_cells)
  show "unat (PackedArray_bufferSize a) = length (buffer a)"
    using assms f by (simp add: len unat_buffer_cells unat_bufferSize)
qed

theorem bufferSize_ceiling_witness:
  "unat (PackedArray_bufferSize \<lparr>bitsPerItem = 9, count = 10, buffer = [0, 0, 0]\<rparr>) = 3"
proof -
  have "nat \<lceil>real (unat (9 :: u32) * unat (10 :: u32)) / 32\<rceil> = 3"
    by (simp only: ceiling_div_32) simp
  then show ?thesis
    using bufferSize_ceiling [of 9 "\<lparr>bitsPerItem = 9, count = 10, buffer = [0, 0, 0]\<rparr>" 10]
    by simp
qed

section \<open>The store of \<open>PackedArray_create\<close>\<close>

text \<open>
  Claim C10, at the input \<open>bitsPerItem = 1\<close>, \<open>count = 0\<close>. The buffer has no cell, the
  index \<open>buffer_cells - 1\<close> wraps around to \<open>2 ^ 64 - 1\<close> in \<open>uint64_t\<close>, and the store of
  \<open>PackedArray_create\<close> falls outside the buffer whenever the allocation succeeds.
\<close>

theorem create_count_zero_store:
  "unat (buffer_cells 1 0) = 0
   \<and> create_store_index 1 0 = 0xFFFFFFFFFFFFFFFF
   \<and> PackedArray_create ndebug (Some garbage) 1 0 = Inl OutOfBounds"
proof -
  have c: "unat (buffer_cells 1 0) = 0"
    by (simp add: unat_buffer_cells)
  then have z: "buffer_cells 1 0 = 0"
    by (simp only: unat_eq_0)
  have "create_store_index 1 0 = 0xFFFFFFFFFFFFFFFF"
    by (simp add: create_store_index_def z)
  moreover have "PackedArray_create ndebug (Some garbage) 1 0 = Inl OutOfBounds"
    by (simp add: PackedArray_create_def z store_def)
  ultimately show ?thesis
    using c by blast
qed

end
